theory Spec2Isabelle
  imports Complex_Main "HOL-Library.Monad_Syntax"
begin

section \<open>Conventions of the embedding\<close>

text \<open>
  The simulator is numpy code over IEEE doubles. The dynamics (\<open>FastSimODE\<close>,
  \<open>ode23simple\<close>) are embedded over the reals: arithmetic is exact and every
  value is finite. Where the source would go on with an infinity or a NaN
  (a division by zero inside numpy) the model returns the error \<open>NonFinite\<close>
  instead of a number. Python exceptions are values of type \<open>error\<close>; a
  function that can raise returns \<open>error + 'a\<close> with \<open>Inl\<close> for the exception.
  Vectors are lists, matrices are lists of rows, indices are 0-based as in
  the source.
\<close>

datatype error =
    IndexError
  | ArithmeticError
  | NonFinite
  | KeyError string
  | ValueError string
  | AssertionError string

type_synonym vec = "real list"
type_synonym mat = "real list list"

text \<open>The machine constants \<open>sys.float_info.epsilon\<close> and \<open>np.finfo(float).tiny\<close>.\<close>

definition float_eps :: real where
  "float_eps = 1 / 2 ^ 52"

definition float_tiny :: real where
  "float_tiny = 1 / 2 ^ 1022"

text \<open>Python 3 \<open>round\<close> with one argument: nearest integer, ties to even.\<close>

definition py_round :: "real \<Rightarrow> int" where
  "py_round x =
     (let f = \<lfloor>x\<rfloor>; d = x - of_int f
      in if d < 1 / 2 then f
         else if 1 / 2 < d then f + 1
         else if even f then f else f + 1)"

section \<open>FastSimODE: the state derivative\<close>

record sim_params =
  T_grid :: vec
  FROPE :: mat
  n_cpl :: nat
  b_damp :: vec
  c_damp :: vec
  M_mass :: vec
  x2all :: vec
  Fmax2all :: mat
  Fmin2all :: mat
  Klocked :: vec
  Kawu :: vec

text \<open>
  Line 41: \<open>i = min(len(T), max(0, int(round((t-T[0])/dt))))\<close>.
\<close>

definition rope_index :: "vec \<Rightarrow> real \<Rightarrow> int" where
  "rope_index T t =
     (let dt = T ! 1 - T ! 0
      in min (int (length T)) (max 0 (py_round ((t - T ! 0) / dt))))"

text \<open>Line 42: \<open>Frope = FROPE[i,:]\<close>, a row read that raises out of range.\<close>

definition rope_row :: "mat \<Rightarrow> int \<Rightarrow> error + vec" where
  "rope_row F i =
     (if 0 \<le> i \<and> i < int (length F) then Inr (F ! nat i) else Inl IndexError)"

text \<open>
  Lines 62-73: the bracket of the displacement table. The fraction \<open>fr\<close>
  (\<open>frac\<close> in the source) is computed from the unclamped \<open>idx0\<close>, before the bounds check moves \<open>idx0\<close>.
\<close>

definition bracket :: "vec \<Rightarrow> real \<Rightarrow> int \<times> int \<times> real" where
  "bracket xs DX =
     (let m = int (length xs);
          dx = xs ! 1 - xs ! 0;
          idx = (DX - xs ! 0) / dx;
          idx0 = \<lfloor>idx\<rfloor>;
          fr = idx - of_int idx0;
          idx1 = idx0 + 1
      in if idx0 < 0 then (0, 1, fr)
         else if idx0 > m - 2 then (m - 2, m - 1, fr)
         else (idx0, idx1, fr))"

text \<open>Lines 78-79: linear interpolation in column \<open>i\<close> of a table.\<close>

definition interp_col :: "mat \<Rightarrow> nat \<Rightarrow> int \<times> int \<times> real \<Rightarrow> real" where
  "interp_col tab i br =
     (case br of (idx0, idx1, fr) \<Rightarrow>
        tab ! nat idx0 ! i * (1 - fr) + tab ! nat idx1 ! i * fr)"

text \<open>Lines 82-87: the force state limited to the envelope.\<close>

definition saturate :: "real \<Rightarrow> real \<Rightarrow> real \<Rightarrow> real" where
  "saturate F1 lo hi = (if F1 < lo then lo else if F1 > hi then hi else F1)"

definition env_min :: "sim_params \<Rightarrow> vec \<Rightarrow> nat \<Rightarrow> real" where
  "env_min p X i = interp_col (Fmin2all p) i (bracket (x2all p) (X ! (i + 2 * n_cpl p)))"

definition env_max :: "sim_params \<Rightarrow> vec \<Rightarrow> nat \<Rightarrow> real" where
  "env_max p X i = interp_col (Fmax2all p) i (bracket (x2all p) (X ! (i + 2 * n_cpl p)))"

definition cpl_force :: "sim_params \<Rightarrow> vec \<Rightarrow> nat \<Rightarrow> real" where
  "cpl_force p X i = saturate (X ! i) (env_min p X i) (env_max p X i)"

text \<open>Line 91: the sum of forces on vehicle \<open>i\<close>.\<close>

definition net_force :: "sim_params \<Rightarrow> vec \<Rightarrow> vec \<Rightarrow> nat \<Rightarrow> real" where
  "net_force p X Frope i =
     (let n = n_cpl p; DX = X ! (i + 2 * n); DV = X ! (i + n); F = cpl_force p X i
      in F - Frope ! i + b_damp p ! i * DV + c_damp p ! i * DV * DX * F)"

text \<open>Lines 95-97: the acceleration of each car.\<close>

definition accel :: "sim_params \<Rightarrow> vec \<Rightarrow> vec \<Rightarrow> nat \<Rightarrow> real" where
  "accel p X Frope i =
     (if i = 0 then net_force p X Frope 0 / M_mass p ! 0
      else (net_force p X Frope i - net_force p X Frope (i - 1)) / M_mass p ! i)"

text \<open>
  Lines 103-106: one pass of the loop over \<open>range(n-1)\<close>, three writes into
  \<open>Xdot\<close>.
\<close>

definition xdot_inner :: "sim_params \<Rightarrow> vec \<Rightarrow> vec \<Rightarrow> nat \<Rightarrow> vec \<Rightarrow> vec" where
  "xdot_inner p X Frope i xd =
     (let n = n_cpl p
      in xd[i := Klocked p ! i * X ! (i + n) + Kawu p ! i * (cpl_force p X i - X ! i),
            i + n := accel p X Frope (i + 1) - accel p X Frope i,
            i + 2 * n := X ! (i + n)])"

text \<open>
  Lines 108-111: the writes for the last group, \<open>i = n-1\<close>, at the indices
  \<open>i\<close>, \<open>2*i\<close> and \<open>3*i\<close> the source uses, in its order.
\<close>

definition xdot_last :: "sim_params \<Rightarrow> vec \<Rightarrow> vec \<Rightarrow> vec" where
  "xdot_last p X xd =
     (let i = n_cpl p - 1
      in xd[i := Klocked p ! i * X ! (2 * i) + Kawu p ! i * (cpl_force p X i - X ! i),
            2 * i := 0,
            3 * i := X ! (2 * i)])"

text \<open>
  The shapes the reads and writes of the body need; a read or write outside
  them raises IndexError in the source.
\<close>

definition shapes_ok :: "sim_params \<Rightarrow> vec \<Rightarrow> vec \<Rightarrow> bool" where
  "shapes_ok p X Frope \<longleftrightarrow>
     (let n = n_cpl p; m = length (x2all p)
      in 0 < n \<and> 3 * n \<le> length X \<and> n \<le> length Frope
         \<and> n \<le> length (b_damp p) \<and> n \<le> length (c_damp p) \<and> n \<le> length (M_mass p)
         \<and> n \<le> length (Klocked p) \<and> n \<le> length (Kawu p)
         \<and> m \<le> length (Fmax2all p) \<and> m \<le> length (Fmin2all p)
         \<and> list_all (\<lambda>r. n \<le> length r) (take m (Fmax2all p))
         \<and> list_all (\<lambda>r. n \<le> length r) (take m (Fmin2all p)))"

text \<open>
  The function. It returns \<open>(Xdot, Frope, F, Fmin, Fmax)\<close>. \<open>Fmin\<close> and \<open>Fmax\<close>
  are allocated with \<open>len(Frope)\<close> entries and filled for the \<open>n\<close> groups.
  A zero time step or table step makes the index expression non-finite and
  \<open>round\<close>/\<open>floor\<close> raise; a zero mass gives a non-finite acceleration.
\<close>

definition FastSimODE ::
  "sim_params \<Rightarrow> real \<Rightarrow> vec \<Rightarrow> error + (vec \<times> vec \<times> vec \<times> vec \<times> vec)" where
  "FastSimODE p t X =
     (let n = n_cpl p; T = T_grid p
      in if length T < 2 then Inl IndexError
         else if T ! 1 - T ! 0 = 0 then Inl ArithmeticError
         else case rope_row (FROPE p) (rope_index T t) of
                Inl err \<Rightarrow> Inl err
              | Inr Frope \<Rightarrow>
                  if length (x2all p) < 2 then Inl IndexError
                  else if x2all p ! 1 - x2all p ! 0 = 0 then Inl ArithmeticError
                  else if \<not> shapes_ok p X Frope then Inl IndexError
                  else if list_ex (\<lambda>m. m = 0) (take n (M_mass p)) then Inl NonFinite
                  else
                    let pad = replicate (length Frope - n) 0;
                        Fmin = map (env_min p X) [0..<n] @ pad;
                        Fmax = map (env_max p X) [0..<n] @ pad;
                        F = map (cpl_force p X) [0..<n];
                        xd0 = fold (xdot_inner p X Frope) [0..<n - 1] (replicate (3 * n) 0)
                    in Inr (xdot_last p X xd0, Frope, F, Fmin, Fmax))"

text \<open>
  A one-group train used to run the function: time grid \<open>[0, 1]\<close> with two
  rope-force rows, a flat envelope between \<open>-10\<close> and \<open>10\<close> on the displacement
  grid \<open>[0, 1]\<close>, locked stiffness 2 and anti-windup gain 3.
\<close>

definition one_group :: sim_params where
  "one_group =
     \<lparr>T_grid = [0, 1], FROPE = [[0], [0]], n_cpl = 1, b_damp = [0], c_damp = [0],
      M_mass = [1], x2all = [0, 1], Fmax2all = [[10], [10]], Fmin2all = [[- 10], [- 10]],
      Klocked = [2], Kawu = [3]\<rparr>"


text \<open>
  A one-group train whose envelope rises along the displacement grid \<open>[0, 1]\<close>:
  \<open>Fmin\<close> from \<open>-5\<close> to \<open>5\<close>, \<open>Fmax\<close> from \<open>0\<close> to \<open>10\<close>.
\<close>

definition rising_group :: sim_params where
  "rising_group =
     \<lparr>T_grid = [0, 1], FROPE = [[0], [0]], n_cpl = 1, b_damp = [0], c_damp = [0],
      M_mass = [1], x2all = [0, 1], Fmax2all = [[0], [10]], Fmin2all = [[- 5], [5]],
      Klocked = [2], Kawu = [3]\<rparr>"

section \<open>ode23simple: the adaptive integrator\<close>

text \<open>
  The statistics object and the variables of the stepping loop. The loop
  state holds what the source keeps across iterations: \<open>t\<close>, \<open>x\<close>, \<open>h\<close>, the
  first slope \<open>s1\<close>, the output arrays, \<open>knext\<close>, \<open>tnext\<close> and the statistics.
\<close>

record ode_stats =
  err :: nat
  hmax_used :: real
  hmin_used :: real
  nsteps :: nat
  nfailed :: nat

record ode_state =
  st_t :: real
  st_x :: vec
  st_h :: real
  st_s1 :: vec
  st_tout :: vec
  st_xout :: mat
  st_knext :: nat
  st_tnext :: real
  st_stats :: ode_stats

definition rtol :: real where
  "rtol = 1 / 100"

definition atol :: real where
  "atol = 1 / 1000"

definition threshold :: real where
  "threshold = atol / rtol"

text \<open>Elementwise vector arithmetic of numpy, on vectors of one length.\<close>

definition vadd :: "vec \<Rightarrow> vec \<Rightarrow> vec" where
  "vadd u v = map2 (+) u v"

definition smul :: "real \<Rightarrow> vec \<Rightarrow> vec" where
  "smul a v = map ((*) a) v"

text \<open>\<open>norm(v, inf)\<close>: the largest absolute value of the components.\<close>

definition norm_inf :: "vec \<Rightarrow> real" where
  "norm_inf v = foldr (\<lambda>a m. max \<bar>a\<bar> m) v 0"

text \<open>
  Line 53: \<open>norm(s1 / clip(abs(x), threshold, None), inf) + tiny\<close>, and line 92
  with \<open>maximum(abs(x), abs(xnew))\<close> in place of \<open>abs(x)\<close>.
\<close>

definition scaled_norm :: "vec \<Rightarrow> vec \<Rightarrow> real" where
  "scaled_norm e sc = norm_inf (map2 (\<lambda>a b. a / max b threshold) e sc) + float_tiny"

text \<open>Lines 68-79: the step the iteration attempts, and whether it lands on an output.\<close>

definition select_step :: "real \<Rightarrow> real \<Rightarrow> real \<Rightarrow> real \<Rightarrow> real \<Rightarrow> real \<times> bool" where
  "select_step h hmin hmax tnext t =
     (let h1 = (if h > hmax then hmax else h);
          h2 = (if h1 < hmin then hmin else h1)
      in if 11 / 10 * h2 \<ge> tnext - t then (tnext - t, True) else (h2, False))"

text \<open>Line 115: the factor of the new step size.\<close>

definition step_factor :: "real \<Rightarrow> real" where
  "step_factor err_est = min 5 (8 / 10 * (rtol / err_est) powr (1 / 3))"

text \<open>
  Lines 82-92: the three stages, the new state and the error estimate of one
  attempt with step \<open>h\<close>. The result is \<open>(xnew, s4, err_est)\<close>; an exception of
  a derivative evaluation is passed on.
\<close>

definition rk_attempt ::
  "sim_params \<Rightarrow> real \<Rightarrow> vec \<Rightarrow> vec \<Rightarrow> real \<Rightarrow> error + (vec \<times> vec \<times> real)" where
  "rk_attempt p t x s1 h =
     (if length s1 \<noteq> length x then Inl (ValueError ''operands could not be broadcast together'')
      else case FastSimODE p (t + h / 2) (vadd x (smul (h / 2) s1)) of
        Inl e \<Rightarrow> Inl e
      | Inr (s2, _) \<Rightarrow>
          (case FastSimODE p (t + 3 * h / 4) (vadd x (smul (3 * h / 4) s2)) of
             Inl e \<Rightarrow> Inl e
           | Inr (s3, _) \<Rightarrow>
               let tnew = t + h;
                   xnew = vadd x (smul (h / 9)
                            (vadd (smul 2 s1) (vadd (smul 3 s2) (smul 4 s3))))
               in (case FastSimODE p tnew xnew of
                     Inl e \<Rightarrow> Inl e
                   | Inr (s4, _) \<Rightarrow>
                       let e = smul (h / 72)
                                 (vadd (smul (- 5) s1)
                                   (vadd (smul 6 s2) (vadd (smul 8 s3) (smul (- 9) s4))));
                           err_est = scaled_norm e (map2 (\<lambda>a b. max \<bar>a\<bar> \<bar>b\<bar>) x xnew)
                       in Inr (xnew, s4, err_est))))"

text \<open>
  Lines 95-112: the accepted step. Time and state advance, the statistics
  are updated, and a step that landed on an output time writes row \<open>knext\<close>.
\<close>

definition accept_step ::
  "vec \<Rightarrow> ode_state \<Rightarrow> real \<Rightarrow> bool \<Rightarrow> vec \<Rightarrow> vec \<Rightarrow> ode_state" where
  "accept_step TOUT s h attout xnew s4 =
     (let tnew = st_t s + h;
          st = st_stats s;
          st' = st\<lparr>hmax_used := max (hmax_used st) h,
                    hmin_used := min (hmin_used st) h,
                    nsteps := nsteps st + 1\<rparr>;
          s' = s\<lparr>st_t := tnew, st_x := xnew, st_stats := st', st_s1 := s4\<rparr>
      in if attout then
           let k = st_knext s;
               nout = length TOUT - 1;
               k' = (if k + 1 > nout then nout else k + 1)
           in s'\<lparr>st_tout := (st_tout s)[k := tnew],
                 st_xout := (st_xout s)[k := xnew],
                 st_knext := k',
                 st_tnext := TOUT ! k'\<rparr>
         else s')"

text \<open>Line 114: the rejected step counts a failure and changes nothing else.\<close>

definition reject_step :: "ode_state \<Rightarrow> ode_state" where
  "reject_step s = s\<lparr>st_stats := (st_stats s)\<lparr>nfailed := nfailed (st_stats s) + 1\<rparr>\<rparr>"

text \<open>
  Lines 66-122: one iteration of the loop, with \<open>hmin = 16*eps*abs(t)\<close> of
  line 68 and the step of lines 70-79 taken from the loop state. The result
  is the next state and whether the loop breaks on a step size that is too
  small.
\<close>

definition hmin_at :: "real \<Rightarrow> real" where
  "hmin_at t = 16 * float_eps * \<bar>t\<bar>"

definition attempted_step :: "real \<Rightarrow> ode_state \<Rightarrow> real \<times> bool" where
  "attempted_step hmax s =
     select_step (st_h s) (hmin_at (st_t s)) hmax (st_tnext s) (st_t s)"

definition ode_body :: "sim_params \<Rightarrow> vec \<Rightarrow> real \<Rightarrow> ode_state \<Rightarrow> error + (ode_state \<times> bool)" where
  "ode_body p TOUT hmax s =
     (let t = st_t s;
          hmin = hmin_at t;
          (h, attout) = attempted_step hmax s
      in case rk_attempt p t (st_x s) (st_s1 s) h of
           Inl e \<Rightarrow> Inl e
         | Inr (xnew, s4, err_est) \<Rightarrow>
             let s' = (if err_est \<le> rtol then accept_step TOUT s h attout xnew s4
                       else reject_step s);
                 h' = h * step_factor err_est
             in if h' \<le> hmin
                then Inr (s'\<lparr>st_h := h', st_stats := (st_stats s')\<lparr>err := 1\<rparr>\<rparr>, True)
                else Inr (s'\<lparr>st_h := h'\<rparr>, False))"

text \<open>
  Lines 66-120: the loop \<open>while t < tEnd\<close>. Over the reals the loop need not
  end (a step rejected for ever at \<open>t = 0\<close>, where \<open>hmin = 0\<close>), so its result is
  an option and \<open>None\<close> stands for a run that never returns.
\<close>

partial_function (option) ode_loop ::
  "sim_params \<Rightarrow> vec \<Rightarrow> real \<Rightarrow> ode_state \<Rightarrow> (error + ode_state) option" where
  "ode_loop p TOUT hmax s =
     (if st_t s < last TOUT then
        (case ode_body p TOUT hmax s of
           Inl e \<Rightarrow> Some (Inl e)
         | Inr (s', brk) \<Rightarrow> if brk then Some (Inr s') else ode_loop p TOUT hmax s')
      else Some (Inr s))"

text \<open>
  Lines 39-63: the state before the loop. \<open>TOUT[knext]\<close> with \<open>knext = 1\<close>
  needs two output times; \<open>xout\<close> has one row for each requested time, zero
  except for row 0.
\<close>

definition ode_init :: "sim_params \<Rightarrow> vec \<Rightarrow> vec \<Rightarrow> error + ode_state" where
  "ode_init p TOUT x0 =
     (if TOUT = [] then Inl IndexError
      else case FastSimODE p (TOUT ! 0) x0 of
        Inl e \<Rightarrow> Inl e
      | Inr (s1, _) \<Rightarrow>
          if length s1 \<noteq> length x0
          then Inl (ValueError ''operands could not be broadcast together'')
          else
            let r = scaled_norm s1 (map abs x0);
                h = 8 / 10 * rtol powr (1 / 3) / r
            in if length TOUT < 2 then Inl IndexError
               else Inr \<lparr>st_t = TOUT ! 0, st_x = x0, st_h = h, st_s1 = s1,
                         st_tout = TOUT,
                         st_xout = (replicate (length TOUT) (replicate (length x0) 0))[0 := x0],
                         st_knext = 1, st_tnext = TOUT ! 1,
                         st_stats = \<lparr>err = 0, hmax_used = h, hmin_used = h,
                                      nsteps = 0, nfailed = 0\<rparr>\<rparr>)"

text \<open>The function: \<open>(tout, xout, stats)\<close> of the state the loop ends in.\<close>

definition ode23simple ::
  "sim_params \<Rightarrow> vec \<Rightarrow> vec \<Rightarrow> (error + (vec \<times> mat \<times> ode_stats)) option" where
  "ode23simple p TOUT x0 =
     (case ode_init p TOUT x0 of
        Inl e \<Rightarrow> Some (Inl e)
      | Inr s0 \<Rightarrow>
          (case ode_loop p TOUT (1 / 10 * (last TOUT - TOUT ! 0)) s0 of
             None \<Rightarrow> None
           | Some (Inl e) \<Rightarrow> Some (Inl e)
           | Some (Inr s) \<Rightarrow> Some (Inr (st_tout s, st_xout s, st_stats s))))"


text \<open>
  Three one-group trains with a flat envelope and no rope force, used to run
  the integrator: one on the time grid \<open>[0, 10]\<close>, one on a grid that starts
  at \<open>t = 1e20\<close> with a spacing of \<open>32768\<close> (two units in the last place of
  a double there).
\<close>

definition ten_group :: sim_params where
  "ten_group =
     \<lparr>T_grid = [0, 10], FROPE = [[0], [0]], n_cpl = 1, b_damp = [0], c_damp = [0],
      M_mass = [1], x2all = [0, 1], Fmax2all = [[10], [10]], Fmin2all = [[- 10], [- 10]],
      Klocked = [2], Kawu = [3]\<rparr>"

definition late_group :: sim_params where
  "late_group =
     \<lparr>T_grid = [100000000000000000000, 100000000000000032768, 100000000000000065536],
      FROPE = [[0], [0], [0]], n_cpl = 1, b_damp = [0], c_damp = [0],
      M_mass = [1], x2all = [0, 1], Fmax2all = [[10], [10]], Fmin2all = [[- 10], [- 10]],
      Klocked = [2], Kawu = [3]\<rparr>"

text \<open>
  The initial step size of line 54 when the first slope is zero:
  \<open>0.8 * rtol**(1/3) / tiny\<close>.
\<close>

definition h_flat :: real where
  "h_flat = 8 / 10 * rtol powr (1 / 3) / float_tiny"

text \<open>The loop state \<open>ode_init\<close> builds for \<open>late_group\<close> from the zero state.\<close>

definition late0 :: ode_state where
  "late0 =
     \<lparr>st_t = 100000000000000000000, st_x = [0, 0, 0], st_h = h_flat, st_s1 = [0, 0, 0],
      st_tout = [100000000000000000000, 100000000000000032768, 100000000000000065536],
      st_xout = [[0, 0, 0], [0, 0, 0], [0, 0, 0]],
      st_knext = 1, st_tnext = 100000000000000032768,
      st_stats = \<lparr>err = 0, hmax_used = h_flat, hmin_used = h_flat,
                   nsteps = 0, nfailed = 0\<rparr>\<rparr>"

text \<open>
  A loop state of \<open>one_group\<close> in the middle of a run towards \<open>t = 100\<close>, with
  step size 1.
\<close>

definition probe_state :: ode_state where
  "probe_state =
     \<lparr>st_t = 0, st_x = [7, 0, 0], st_h = 1, st_s1 = [7, 0, 0], st_tout = [0, 100],
      st_xout = [[7, 0, 0], [0, 0, 0]], st_knext = 1, st_tnext = 100,
      st_stats = \<lparr>err = 0, hmax_used = 1, hmin_used = 1, nsteps = 0, nfailed = 0\<rparr>\<rparr>"

text \<open>The state of that run after its only iteration.\<close>

definition late1 :: ode_state where
  "late1 = late0\<lparr>st_t := 100000000000000032768, st_x := [0, 0, 0],
       st_stats := \<lparr>err = 1, hmax_used = max h_flat 32768, hmin_used = min h_flat 32768,
                     nsteps = 1, nfailed = 0\<rparr>,
       st_s1 := [0, 0, 0], st_knext := 2, st_tnext := 100000000000000065536,
       st_h := 32768 * step_factor float_tiny\<rparr>"


section \<open>defineCarGroups: the car group partition\<close>

text \<open>
  The grouping limit \<open>dcar\<close> as Python passes it: \<open>None\<close>, a number, a dict
  from field names to numbers (an association list), or a value of any
  other type. Coupler type indices are integers.
\<close>

datatype dcar_arg =
    DNone
  | DNum real
  | DDict "(string \<times> real) list"
  | DOther

definition has_key :: "(string \<times> real) list \<Rightarrow> string \<Rightarrow> bool" where
  "has_key d k \<longleftrightarrow> map_of d k \<noteq> None"

definition get_key :: "(string \<times> real) list \<Rightarrow> string \<Rightarrow> error + real" where
  "get_key d k = (case map_of d k of None \<Rightarrow> Inl (KeyError k) | Some v \<Rightarrow> Inr v)"

fun join_comma :: "string list \<Rightarrow> string" where
  "join_comma [] = []"
| "join_comma [k] = k"
| "join_comma (k # ks) = k @ '','' @ join_comma ks"

text \<open>Lines 45-46: the two field sets a dict may have.\<close>

definition fields_ok :: "(string \<times> real) list \<Rightarrow> bool" where
  "fields_ok kv \<longleftrightarrow>
     (has_key kv ''eocc'' \<and> has_key kv ''norm'')
     \<or> (has_key kv ''eocc100'' \<and> has_key kv ''eocc050'' \<and> has_key kv ''norm'')"

text \<open>
  Lines 41-53: \<open>None\<close> is replaced by the default limits, then the shape of
  \<open>dcar\<close> is checked. The result is the limit the function goes on with.
\<close>

definition dcar_check :: "dcar_arg \<Rightarrow> error + dcar_arg" where
  "dcar_check dcar =
     (let d = (case dcar of DNone \<Rightarrow> DDict [(''norm'', 15), (''eocc'', 5)] | _ \<Rightarrow> dcar)
      in case d of
           DDict kv \<Rightarrow>
             if fields_ok kv then Inr d
             else Inl (ValueError (''dcar: unexpected fields '' @ join_comma (map fst kv)))
         | DNum v \<Rightarrow> Inr d
         | _ \<Rightarrow> Inl (ValueError ''dcar: unknown type''))"

text \<open>
  Lines 62-72: the vector of limits and the coupler types the scan compares.
  With two fields every type above 1 counts as type 2; with a number every
  type above 0 counts as type 1.
\<close>

definition dcar_vec :: "dcar_arg \<Rightarrow> error + real list" where
  "dcar_vec d =
     (case d of
        DDict kv \<Rightarrow>
          if has_key kv ''eocc100'' then
            (case get_key kv ''norm'' of Inl e \<Rightarrow> Inl e | Inr a \<Rightarrow>
             case get_key kv ''eocc100'' of Inl e \<Rightarrow> Inl e | Inr b \<Rightarrow>
             case get_key kv ''eocc050'' of Inl e \<Rightarrow> Inl e | Inr c \<Rightarrow> Inr [a, b, c])
          else
            (case get_key kv ''norm'' of Inl e \<Rightarrow> Inl e | Inr a \<Rightarrow>
             case get_key kv ''eocc'' of Inl e \<Rightarrow> Inl e | Inr b \<Rightarrow> Inr [a, b])
      | DNum v \<Rightarrow> Inr [v]
      | _ \<Rightarrow> Inr [])"

definition map_types :: "dcar_arg \<Rightarrow> int list \<Rightarrow> int list" where
  "map_types d cti =
     (case d of
        DDict kv \<Rightarrow>
          if has_key kv ''eocc100'' then cti
          else map (\<lambda>c. if c > 1 then 2 else c) cti
      | _ \<Rightarrow> map (\<lambda>c. if c > 0 then 1 else c) cti)"

text \<open>Python list indexing: a negative index counts from the end.\<close>

definition py_index :: "'a list \<Rightarrow> int \<Rightarrow> error + 'a" where
  "py_index xs i =
     (let n = int (length xs); j = (if i < 0 then n + i else i)
      in if 0 \<le> j \<and> j < n then Inr (xs ! nat j) else Inl IndexError)"

text \<open>
  Lines 76-81: the size limit of a coupler type, and the limit that applies
  after vehicle \<open>i-1\<close>.
\<close>

definition type_limit :: "dcar_arg \<Rightarrow> real list \<Rightarrow> int \<Rightarrow> error + real" where
  "type_limit d dvec c =
     (case d of
        DNum v \<Rightarrow> Inr v
      | _ \<Rightarrow> py_index dvec (c - 1))"

definition group_size_limit :: "dcar_arg \<Rightarrow> real list \<Rightarrow> int list \<Rightarrow> nat \<Rightarrow> error + real" where
  "group_size_limit d dvec ctyp i = type_limit d dvec (ctyp ! (i - 1))"

text \<open>
  Lines 83-90: one pass of the scan, for the loop index \<open>i\<close> from 1 to
  \<open>n0-1\<close>. The state is \<open>(k, kg, cargroup)\<close>.
\<close>

definition scan_step ::
  "dcar_arg \<Rightarrow> real list \<Rightarrow> int list \<Rightarrow> nat \<Rightarrow> nat \<times> nat \<times> nat list
     \<Rightarrow> error + nat \<times> nat \<times> nat list" where
  "scan_step d dvec ctyp i st =
     (case st of (k, kg, cargroup) \<Rightarrow>
        case group_size_limit d dvec ctyp i of
          Inl e \<Rightarrow> Inl e
        | Inr lmt \<Rightarrow>
            let new = (real (k + 1) > lmt \<or> ctyp ! (i - 1) \<noteq> ctyp ! i);
                kg' = (if new then kg + 1 else kg);
                k' = (if new then 0 else k) + 1;
                cargroup' = (if kg' > length cargroup then cargroup @ [i + 1]
                             else cargroup[kg' - 1 := i + 1])
            in Inr (k', kg', cargroup'))"

fun scan ::
  "dcar_arg \<Rightarrow> real list \<Rightarrow> int list \<Rightarrow> nat list \<Rightarrow> nat \<times> nat \<times> nat list
     \<Rightarrow> error + nat \<times> nat \<times> nat list" where
  "scan d dvec ctyp [] st = Inr st"
| "scan d dvec ctyp (i # rest) st =
     (case scan_step d dvec ctyp i st of
        Inl e \<Rightarrow> Inl e
      | Inr st' \<Rightarrow> scan d dvec ctyp rest st')"

text \<open>
  Lines 104-109: the end \<open>i2\<close> of the run of groups that starts at \<open>i1\<close>: the
  group before the first later group whose last vehicle has another type.
\<close>

fun run_end :: "int list \<Rightarrow> nat list \<Rightarrow> nat \<Rightarrow> nat list \<Rightarrow> nat" where
  "run_end ctyp cargroup i1 [] = length cargroup - 1"
| "run_end ctyp cargroup i1 (j # js) =
     (if ctyp ! (cargroup ! j - 1) \<noteq> ctyp ! (cargroup ! i1 - 1) then j - 1
      else run_end ctyp cargroup i1 js)"

text \<open>
  Line 112: entry \<open>k\<close> of \<open>round(linspace(a, b, g + 1))\<close>, in exact arithmetic.
\<close>

definition linspace_round :: "nat \<Rightarrow> nat \<Rightarrow> nat \<Rightarrow> nat \<Rightarrow> nat" where
  "linspace_round a b g k = nat (py_round (real a + real k * (real b - real a) / real g))"

text \<open>
  Lines 99-115: the loop of the size equalisation. \<open>i\<close> is the first group of
  the next run and \<open>eq\<close> the list \<open>cargroup_equalized\<close>.
\<close>

function equalize :: "int list \<Rightarrow> nat list \<Rightarrow> nat \<Rightarrow> nat list \<Rightarrow> nat list" where
  "equalize ctyp cargroup i eq =
     (if i < length cargroup - 1 then
        let i2 = run_end ctyp cargroup i [i + 1..<length cargroup];
            cg0 = 0 # cargroup;
            eq' = fold (\<lambda>j e. e[j := linspace_round (cg0 ! i) (cg0 ! (i2 + 1)) (i2 - i + 1)
                                        (j - i + 1)])
                       [i..<i2] eq
        in equalize ctyp cargroup (i2 + 1) eq'
      else eq)"
  by pat_completeness auto
termination
proof (relation "measure (\<lambda>(ctyp, cargroup, i, eq). length cargroup - i)")
  show "wf (measure (\<lambda>(ctyp, cargroup, i, eq). length cargroup - i))"
    by simp
next
  fix ctyp :: "int list" and cargroup :: "nat list" and i :: nat and eq :: "nat list"
    and i2 :: nat and cg0 :: "nat list" and eq' :: "nat list"
  assume lt: "i < length cargroup - 1"
    and i2: "i2 = run_end ctyp cargroup i [i + 1..<length cargroup]"
  have "i \<le> run_end ctyp cargroup i js" if "\<forall>j \<in> set js. i < j" for js
    using that lt by (induction js) auto
  then have "i \<le> i2"
    unfolding i2 by simp
  with lt show "((ctyp, cargroup, i2 + 1, eq'), (ctyp, cargroup, i, eq))
      \<in> measure (\<lambda>(ctyp, cargroup, i, eq). length cargroup - i)"
    by simp
qed

text \<open>
  The function, without the \<open>-verbose\<close> printing. The second argument of the
  model is the switch \<open>-equalizeSize\<close>.
\<close>

definition defineCarGroups :: "dcar_arg \<Rightarrow> int list \<Rightarrow> bool \<Rightarrow> error + nat list" where
  "defineCarGroups dcar couplerTypeIndex equalizeSize =
     (case dcar_check dcar of
        Inl e \<Rightarrow> Inl e
      | Inr d \<Rightarrow>
          (case dcar_vec d of
             Inl e \<Rightarrow> Inl e
           | Inr dvec \<Rightarrow>
               let n0 = length couplerTypeIndex;
                   ctyp = map_types d couplerTypeIndex
               in case scan d dvec ctyp [1..<n0] (1, 1, [1]) of
                    Inl e \<Rightarrow> Inl e
                  | Inr (k, kg, cargroup) \<Rightarrow>
                      let cg = take kg cargroup
                      in Inr (if equalizeSize then equalize ctyp cg 0 cg else cg)))"


section \<open>defineCouplers: the coupler specifications\<close>

text \<open>
  One coupler type as lines 44-104 build it: a standard draft gear for a
  zero preload, an EOCC unit parameterised by preload and stroke otherwise.
\<close>

datatype coupler_kind = Standard | EOCC real real

record coupler_spec =
  sp_kind :: coupler_kind
  Funits :: string
  Xunits :: string
  sp_xmax :: vec
  sp_Fmax :: vec
  sp_xmin :: vec
  sp_Fmin :: vec
  sp_Klocked :: real
  sp_B :: real
  sp_Bcushion :: real

text \<open>
  Lines 65-74 of the EOCC branch: the displacement \<open>x1\<close> at which the preload
  is reached and the shift \<open>dx1\<close> of the stroke.
\<close>

definition eocc_x1 :: "real \<Rightarrow> real" where
  "eocc_x1 preload = preload / (100 / (61 / 100 - 43 / 100)) + 43 / 100"

definition eocc_dx1 :: "real \<Rightarrow> real" where
  "eocc_dx1 stroke = (- (15 / 10) + 62 / 100) * stroke / 28"

definition standard_spec :: coupler_spec where
  "standard_spec =
     \<lparr>sp_kind = Standard, Funits = ''kips'', Xunits = ''in'',
      sp_xmax = [0, 47 / 100, 74 / 100, 195 / 100, 494 / 100],
      sp_Fmax = [0, 0, 27, 153, 304],
      sp_xmin = [0, 47 / 100, 74 / 100, 47 / 10],
      sp_Fmin = [0, 0, 27, 58 * (11 / 10)],
      sp_Klocked = (103 - 35) / (15 / 10 - 144 / 100) / 4,
      sp_B = 2 / 10 * 15, sp_Bcushion = 1 / 100000\<rparr>"

definition make_spec :: "real \<Rightarrow> real \<Rightarrow> error + coupler_spec" where
  "make_spec preload stroke =
     (if preload = 0 then
        Inr standard_spec
      else
        let df0 = 15 / 1000; df1 = 10 * preload / 100 * stroke / 28; df3 = 25; df2 = 1;
            df4 = 30; xdeadzone = 43 / 100;
            x1 = eocc_x1 preload; dx1 = eocc_dx1 stroke
        in if \<not> stroke + dx1 > x1 then Inl (AssertionError ''stroke is too small'')
           else
             let dx2 = 62 / 100; dx3 = 68 / 100;
                 xmax = [0, xdeadzone, x1, stroke + dx1, stroke + dx2, stroke + dx3];
                 Fmax = [0, df0, preload, preload + df1, preload + df1 + df3,
                         preload + df4 + df1 + df3];
                 xmax1 = xmax ! 4; xmax2 = xmax ! 5; ymax1 = Fmax ! 4; ymax2 = Fmax ! 5;
                 mmin = 0; mmax = (ymax2 - ymax1) / (xmax2 - xmax1);
                 bmin = df2; bmax = ymax1 - mmax * xmax1;
                 xintercept = - (bmax - bmin) / (mmax - mmin)
             in Inr \<lparr>sp_kind = EOCC preload stroke, Funits = ''kips'', Xunits = ''in'',
                     sp_xmax = xmax, sp_Fmax = Fmax,
                     sp_xmin = [0, xintercept, xmax2],
                     sp_Fmin = [0, mmin * xintercept + bmin, mmax * xmax2 + bmax],
                     sp_Klocked = 575, sp_B = 4 / 100 * 7,
                     sp_Bcushion = 15 / 100 * 5 * 100 / preload\<rparr>)"

text \<open>Lines 39-107: the loop over the coupler types stops at the first exception.\<close>

fun make_specs :: "(real \<times> real) list \<Rightarrow> error + coupler_spec list" where
  "make_specs [] = Inr []"
| "make_specs ((preload, stroke) # rest) =
     (case make_spec preload stroke of
        Inl e \<Rightarrow> Inl e
      | Inr sp \<Rightarrow>
          (case make_specs rest of Inl e \<Rightarrow> Inl e | Inr sps \<Rightarrow> Inr (sp # sps)))"

text \<open>
  Lines 138-144: the unit checks, \<open>len(set(...)) > 1\<close> on the force units and
  then on the displacement units.
\<close>

definition check_units :: "coupler_spec list \<Rightarrow> error + unit" where
  "check_units specs =
     (if 1 < card (set (map Funits specs)) then Inl (ValueError ''Force units not common'')
      else if 1 < card (set (map Xunits specs))
      then Inl (ValueError ''Displacment units not common'')
      else Inr ())"

text \<open>
  Lines 6-35: the arguments. \<open>None\<close> or an empty array counts as not given.
  Without preloads the defaults for up to three types are used; the preload
  and stroke of each type are read from row 0.
\<close>

definition given :: "mat option \<Rightarrow> bool" where
  "given a = (case a of None \<Rightarrow> False | Some m \<Rightarrow> m \<noteq> [])"

definition couplers_args ::
  "mat \<Rightarrow> mat option \<Rightarrow> mat option \<Rightarrow> error + (real \<times> real) list" where
  "couplers_args numTypesInGroup preloads strokes =
     (if given preloads \<and> \<not> given strokes then
        (if numTypesInGroup = [] then Inl IndexError
         else if length (hd (the preloads)) \<noteq> length (hd numTypesInGroup)
         then Inl (AssertionError
                ''preload and numTypesInGroup must have the same number of columns'')
         else Inr (map (\<lambda>pl. (pl, 28)) (hd (the preloads))))
      else if \<not> given preloads \<and> given strokes
      then Inl (ValueError ''preload must be given if stroke if given'')
      else if \<not> given preloads \<and> \<not> given strokes then
        (if numTypesInGroup = [] then Inl (ValueError ''not enough values to unpack'')
         else if 3 < length (hd numTypesInGroup)
         then Inl (ValueError
                ''when only numTypesInGroup is given it must be ngroups x ntypes, where ntypes = 1,2 or 3'')
         else Inr [(0, 0), (100, 28), (50, 28)])
      else
        (if map length (the preloads) \<noteq> map length (the strokes)
         then Inl (AssertionError ''preload and strokes must be the same size'')
         else if numTypesInGroup = [] then Inl IndexError
         else if length (hd (the preloads)) \<noteq> length (hd numTypesInGroup)
         then Inl (AssertionError
                ''preload and numTypesInGroup must have the same number of columns'')
         else Inr (zip (hd (the preloads)) (hd (the strokes)))))"

text \<open>
  The function up to line 144, where the last configuration check is made:
  the specifications of the coupler types. The tables the source builds
  from them afterwards are not part of the model.
\<close>

definition defineCouplers ::
  "mat \<Rightarrow> mat option \<Rightarrow> mat option \<Rightarrow> error + coupler_spec list" where
  "defineCouplers numTypesInGroup preloads strokes =
     (case couplers_args numTypesInGroup preloads strokes of
        Inl e \<Rightarrow> Inl e
      | Inr ps \<Rightarrow>
          (case make_specs ps of
             Inl e \<Rightarrow> Inl e
           | Inr specs \<Rightarrow>
               (case check_units specs of Inl e \<Rightarrow> Inl e | Inr u \<Rightarrow> Inr specs)))"


section \<open>FastSimM: the initial state\<close>

text \<open>
  The steady-state initialisation replaces NaN by zero, so its values are
  modelled as reals extended by the IEEE special values. Arithmetic on
  finite values is exact (no rounding, no overflow); the special values
  follow IEEE 754, with zero taken as positive in a division.
\<close>

datatype fval = Fin real | PInf | NInf | NaN

definition is_nan :: "fval \<Rightarrow> bool" where
  "is_nan v \<longleftrightarrow> v = NaN"

fun fneg :: "fval \<Rightarrow> fval" where
  "fneg (Fin a) = Fin (- a)"
| "fneg PInf = NInf"
| "fneg NInf = PInf"
| "fneg NaN = NaN"

fun fadd :: "fval \<Rightarrow> fval \<Rightarrow> fval" where
  "fadd NaN v = NaN"
| "fadd v NaN = NaN"
| "fadd (Fin a) (Fin b) = Fin (a + b)"
| "fadd PInf NInf = NaN"
| "fadd NInf PInf = NaN"
| "fadd PInf v = PInf"
| "fadd v PInf = PInf"
| "fadd NInf v = NInf"
| "fadd v NInf = NInf"

definition fsub :: "fval \<Rightarrow> fval \<Rightarrow> fval" where
  "fsub u v = fadd u (fneg v)"

fun fmul :: "fval \<Rightarrow> fval \<Rightarrow> fval" where
  "fmul NaN v = NaN"
| "fmul v NaN = NaN"
| "fmul (Fin a) (Fin b) = Fin (a * b)"
| "fmul (Fin a) PInf = (if a = 0 then NaN else if 0 < a then PInf else NInf)"
| "fmul (Fin a) NInf = (if a = 0 then NaN else if 0 < a then NInf else PInf)"
| "fmul PInf (Fin b) = (if b = 0 then NaN else if 0 < b then PInf else NInf)"
| "fmul NInf (Fin b) = (if b = 0 then NaN else if 0 < b then NInf else PInf)"
| "fmul PInf PInf = PInf"
| "fmul NInf NInf = PInf"
| "fmul PInf NInf = NInf"
| "fmul NInf PInf = NInf"

fun fdiv :: "fval \<Rightarrow> fval \<Rightarrow> fval" where
  "fdiv NaN v = NaN"
| "fdiv v NaN = NaN"
| "fdiv (Fin a) (Fin b) =
     (if b = 0 then (if a = 0 then NaN else if 0 < a then PInf else NInf) else Fin (a / b))"
| "fdiv (Fin a) v = Fin 0"
| "fdiv PInf (Fin b) = (if 0 \<le> b then PInf else NInf)"
| "fdiv NInf (Fin b) = (if 0 \<le> b then NInf else PInf)"
| "fdiv u v = NaN"

fun flt :: "fval \<Rightarrow> fval \<Rightarrow> bool" where
  "flt NaN v = False"
| "flt v NaN = False"
| "flt (Fin a) (Fin b) = (a < b)"
| "flt v NInf = False"
| "flt PInf v = False"
| "flt NInf v = True"
| "flt v PInf = True"

fun fabs :: "fval \<Rightarrow> fval" where
  "fabs (Fin a) = Fin \<bar>a\<bar>"
| "fabs NaN = NaN"
| "fabs v = PInf"

text \<open>\<open>np.sign\<close>: the sign of NaN is NaN.\<close>

fun fsign :: "fval \<Rightarrow> fval" where
  "fsign (Fin a) = Fin (sgn a)"
| "fsign PInf = Fin 1"
| "fsign NInf = Fin (- 1)"
| "fsign NaN = NaN"

text \<open>\<open>np.max\<close> of a column: NaN if any entry is NaN.\<close>

definition fmax2 :: "fval \<Rightarrow> fval \<Rightarrow> fval" where
  "fmax2 u v = (if is_nan u \<or> is_nan v then NaN else if flt u v then v else u)"

fun np_max :: "fval list \<Rightarrow> error + fval" where
  "np_max [] = Inl (ValueError ''zero-size array to reduction operation maximum'')"
| "np_max (v # vs) = Inr (fold (\<lambda>a m. fmax2 m a) vs v)"

text \<open>
  \<open>np.interp(x, xp, fp)\<close> for one point, as documented for increasing
  \<open>xp\<close>: constant beyond the ends, linear in the bracket
  \<open>xp[j] \<le> x < xp[j+1]\<close>. The bracket is the one before the first sample
  above \<open>x\<close>; numpy searches tables of more than four points by bisection,
  which finds the same bracket when \<open>xp\<close> is increasing.
\<close>

fun first_above :: "fval \<Rightarrow> fval list \<Rightarrow> nat \<Rightarrow> nat" where
  "first_above x [] i = i"
| "first_above x (a # as) i = (if flt x a then i else first_above x as (i + 1))"

definition np_interp :: "fval \<Rightarrow> fval list \<Rightarrow> fval list \<Rightarrow> error + fval" where
  "np_interp x xp fp =
     (if xp = [] then Inl (ValueError ''array of sample points is empty'')
      else if length fp \<noteq> length xp
      then Inl (ValueError ''fp and xp are not of the same length'')
      else if is_nan x then Inr x
      else if flt (last xp) x then Inr (last fp)
      else if flt x (hd xp) then Inr (hd fp)
      else
        let j = first_above x (tl xp) 1 - 1
        in if j = length xp - 1 then Inr (fp ! j)
           else if xp ! j = x then Inr (fp ! j)
           else
             let slope = fdiv (fsub (fp ! (j + 1)) (fp ! j)) (fsub (xp ! (j + 1)) (xp ! j));
                 r1 = fadd (fmul slope (fsub x (xp ! j))) (fp ! j);
                 r2 = fadd (fmul slope (fsub x (xp ! (j + 1)))) (fp ! (j + 1))
             in Inr (if \<not> is_nan r1 then r1
                     else if \<not> is_nan r2 then r2
                     else if fp ! j = fp ! (j + 1) then fp ! j else r2))"

section \<open>ssCouplerDisplacement\<close>

type_synonym fvec = "fval list"
type_synonym fmat = "fval list list"

definition column :: "fmat \<Rightarrow> nat \<Rightarrow> fvec" where
  "column m i = map (\<lambda>row. row ! i) m"

text \<open>
  Line 23: \<open>e = max(abs(Fmax2all[:, i])) * eps * 2\<close>, and the ramp
  \<open>arange(1, N + 1) * e\<close> of lines 27 and 30 added to a column.
\<close>

definition slope_eps :: "fvec \<Rightarrow> error + fval" where
  "slope_eps fmax_col =
     (case np_max (map fabs fmax_col) of
        Inl ex \<Rightarrow> Inl ex
      | Inr m \<Rightarrow> Inr (fmul (fmul m (Fin float_eps)) (Fin 2)))"

definition ramp :: "nat \<Rightarrow> fval \<Rightarrow> fvec" where
  "ramp N e = map (\<lambda>k. fmul (Fin (real k)) e) [1..<N + 1]"

definition perturbed :: "fvec \<Rightarrow> fval \<Rightarrow> fvec" where
  "perturbed col e = map2 fadd col (ramp (length col) e)"

text \<open>
  Lines 21-30 for coupler \<open>i\<close>. \<open>d\<close> is the sign of the first difference of
  the rope force; with fewer than two rope-force samples the difference is
  empty and its truth value raises (numpy 2.2; older versions warn and go
  on). A column index beyond the columns of \<open>Frope\<close> or \<open>Fmin2all\<close> raises
  IndexError; the matrices are rectangular, as numpy arrays are.
\<close>

definition ss_column :: "fvec \<Rightarrow> fmat \<Rightarrow> fmat \<Rightarrow> fmat \<Rightarrow> nat \<Rightarrow> error + fval" where
  "ss_column x2 Fmin2 Fmax2 Frope i =
     (if Frope \<noteq> [] \<and> length (hd Frope) \<le> i then Inl IndexError
      else case slope_eps (column Fmax2 i) of
        Inl ex \<Rightarrow> Inl ex
      | Inr e \<Rightarrow>
          if length Frope < 2
          then Inl (ValueError ''The truth value of an empty array is ambiguous'')
          else
            let d = fsign (fsub (Frope ! 1 ! i) (Frope ! 0 ! i))
            in if flt d (Fin 0)
               then (if Fmin2 \<noteq> [] \<and> length (hd Fmin2) \<le> i then Inl IndexError
                     else np_interp (Frope ! 0 ! i) (perturbed (column Fmin2 i) e) x2)
               else np_interp (Frope ! 0 ! i) (perturbed (column Fmax2 i) e) x2)"

fun collect :: "(nat \<Rightarrow> error + 'a) \<Rightarrow> nat list \<Rightarrow> error + 'a list" where
  "collect f [] = Inr []"
| "collect f (i # rest) =
     (case f i of
        Inl e \<Rightarrow> Inl e
      | Inr v \<Rightarrow> (case collect f rest of Inl e \<Rightarrow> Inl e | Inr vs \<Rightarrow> Inr (v # vs)))"

text \<open>The function: one displacement for each column of \<open>Fmax2all\<close>.\<close>

definition ssCouplerDisplacement :: "fvec \<Rightarrow> fmat \<Rightarrow> fmat \<Rightarrow> fmat \<Rightarrow> error + fvec" where
  "ssCouplerDisplacement x2 Fmin2 Fmax2 Frope =
     (if Fmax2 = [] then Inl IndexError
      else collect (ss_column x2 Fmin2 Fmax2 Frope) [0..<length (hd Fmax2)])"

text \<open>
  Lines 69-84 of FastSimM: the initial state. The option is a string
  compared in lower case, or a number that is broadcast, or a vector.
  Line 78 sets the NaN entries of the steady state to zero.
\<close>

datatype x0_arg = XZero | XSteadyState | XString string | XScalar fval | XVector fvec

definition nan_to_zero :: "fval \<Rightarrow> fval" where
  "nan_to_zero v = (if is_nan v then Fin 0 else v)"

definition FastSimM_X0 ::
  "x0_arg \<Rightarrow> nat \<Rightarrow> fvec \<Rightarrow> fmat \<Rightarrow> fmat \<Rightarrow> fmat \<Rightarrow> error + fvec" where
  "FastSimM_X0 X0 n x2 Fmin2 Fmax2 Frope =
     (case X0 of
        XZero \<Rightarrow> Inr (replicate (3 * n) (Fin 0))
      | XSteadyState \<Rightarrow>
          if Frope = [] then Inl IndexError
          else
            let F10 = Frope ! 0;
                DV0 = map (\<lambda>v. fmul v (Fin 0)) F10
            in (case ssCouplerDisplacement x2 Fmin2 Fmax2 Frope of
                  Inl e \<Rightarrow> Inl e
                | Inr DX0 \<Rightarrow> Inr (map nan_to_zero (F10 @ DV0 @ DX0)))
      | XString str \<Rightarrow> Inl (ValueError (''FastSimM: invalid initial state option, '' @ str))
      | XScalar v \<Rightarrow> Inr (map (\<lambda>z. fadd z v) (replicate (3 * n) (Fin 0)))
      | XVector vs \<Rightarrow>
          if length vs = 1 then Inr (map (\<lambda>z. fadd z (hd vs)) (replicate (3 * n) (Fin 0)))
          else Inr vs)"


section \<open>The partition invariant\<close>

text \<open>
  A group of the vehicles \<open>a, ..., b-1\<close> (0-based) is well formed when it is
  not empty, lies within the train, holds one coupler type, and is no
  larger than the limit \<open>L\<close> of that type. A list of group ends is a
  partition from \<open>a\<close> when every group, from the end of the one before it,
  is well formed.
\<close>

definition group_ok :: "int list \<Rightarrow> (int \<Rightarrow> real) \<Rightarrow> nat \<Rightarrow> nat \<Rightarrow> bool" where
  "group_ok ct L a b \<longleftrightarrow>
     a < b \<and> b \<le> length ct \<and> list_all (\<lambda>v. ct ! v = ct ! a) [a..<b]
     \<and> real (b - a) \<le> L (ct ! a)"

fun parts_ok :: "int list \<Rightarrow> (int \<Rightarrow> real) \<Rightarrow> nat \<Rightarrow> nat list \<Rightarrow> bool" where
  "parts_ok ct L a [] = True"
| "parts_ok ct L a (b # bs) = (group_ok ct L a b \<and> parts_ok ct L b bs)"

text \<open>The limit of a type as a number, zero where the lookup fails.\<close>

definition limit_of :: "dcar_arg \<Rightarrow> real list \<Rightarrow> int \<Rightarrow> real" where
  "limit_of d dvec c = (case type_limit d dvec c of Inl e \<Rightarrow> 0 | Inr l \<Rightarrow> l)"

(*PROPERTIES*)
section \<open>Properties of FastSimODE\<close>

lemma py_round_of_int: "py_round (of_int k) = k"
  by (simp add: py_round_def)

lemma rope_index_range: "0 \<le> rope_index T t \<and> rope_index T t \<le> int (length T)"
  by (simp add: rope_index_def Let_def)

text \<open>
  C1. The claim: the rope-force index is clamped into the rows of the table,
  between 0 and the number of samples minus 1, so that the lookup returns a
  sample also when \<open>t\<close> overruns the series. The source clamps with
  \<open>min(len(T), ...)\<close>, one past the last row: at \<open>t = 5\<close> on the grid \<open>[0, 1]\<close>
  the index is 2, the number of samples, and the row read raises IndexError.
\<close>

theorem C1_rope_index_one_past_end:
  "rope_index (T_grid one_group) 5 = int (length (FROPE one_group))
   \<and> rope_row (FROPE one_group) (rope_index (T_grid one_group) 5) = Inl IndexError
   \<and> FastSimODE one_group 5 [7, 1, 0] = Inl IndexError"
  by (simp add: FastSimODE_def one_group_def rope_index_def py_round_def rope_row_def)

text \<open>
  C2. The claim: for the last group the derivative of \<open>DV\<close> (index \<open>2n-1\<close>) is
  zero, the derivative of \<open>F1\<close> is \<open>Klocked*DV + Kawu*(F-F1)\<close> and the derivative
  of \<open>DX\<close> (index \<open>3n-1\<close>) is \<open>DV\<close>. The source writes the last group at the
  indices \<open>2*(n-1)\<close> and \<open>3*(n-1)\<close>. For one group and the state
  \<open>F1 = 7, DV = 1, DX = 0\<close> the claim gives the derivative \<open>[2, 0, 1]\<close>; the
  function returns \<open>[7, 0, 0]\<close>: the three writes all land on index 0.
\<close>

theorem C2_last_group_single:
  "FastSimODE one_group 0 [7, 1, 0] = Inr ([7, 0, 0], [0], [7], [- 10], [10])"
  by (simp add: FastSimODE_def one_group_def rope_index_def py_round_def rope_row_def
      shapes_ok_def xdot_last_def cpl_force_def env_min_def env_max_def interp_col_def
      bracket_def saturate_def eval_nat_numeral)

lemmas ode_eval = FastSimODE_def rope_index_def py_round_def rope_row_def
  shapes_ok_def xdot_last_def cpl_force_def env_min_def env_max_def interp_col_def
  bracket_def saturate_def eval_nat_numeral Let_def

lemma saturate_bounds: "lo \<le> hi \<Longrightarrow> lo \<le> saturate F1 lo hi \<and> saturate F1 lo hi \<le> hi"
  by (simp add: saturate_def)

lemma saturate_inside: "lo \<le> F1 \<Longrightarrow> F1 \<le> hi \<Longrightarrow> saturate F1 lo hi = F1"
  by (simp add: saturate_def)

lemma bracket_in_table:
  assumes "2 \<le> length xs" and "bracket xs DX = (i0, i1, fr)"
  shows "0 \<le> i0 \<and> i1 = i0 + 1 \<and> i1 < int (length xs) \<and> 0 \<le> fr \<and> fr < 1"
  using assms by (auto simp add: bracket_def Let_def split: if_splits) linarith+

text \<open>
  C5. The claim: the bracket is clamped to the table, \<open>Fmin\<close> and \<open>Fmax\<close> are
  the linear interpolants of the table at \<open>DX\<close> (beyond the edges, the
  extension of the boundary segment), and \<open>F\<close> is \<open>F1\<close> limited to
  \<open>[Fmin, Fmax]\<close>. The indices do stay in the table (\<open>bracket_in_table\<close>) and
  the limiting holds (\<open>saturate_bounds\<close>, \<open>saturate_inside\<close>), but the fraction
  is taken from the unclamped index: once the index is clamped the value is
  no longer the interpolant at \<open>DX\<close>. On the grid \<open>[0, 1]\<close> with \<open>Fmin\<close> from
  \<open>-5\<close> to \<open>5\<close> and \<open>Fmax\<close> from \<open>0\<close> to \<open>10\<close>, at the last grid point \<open>DX = 1\<close>
  the table gives \<open>Fmin = 5\<close>, \<open>Fmax = 10\<close> and the claim \<open>F = F1 = 8\<close>; the
  function returns \<open>Fmin = -5\<close>, \<open>Fmax = 0\<close> and \<open>F = 0\<close>.
\<close>

theorem C5_last_grid_point:
  "FastSimODE rising_group 0 [8, 0, 1] = Inr ([8, 0, 0], [0], [0], [- 5], [0])"
  by (simp add: rising_group_def ode_eval)

section \<open>Properties of ode23simple\<close>

lemma step_factor_le: "step_factor e \<le> 5"
  by (simp add: step_factor_def)


subsection \<open>Two concrete iterations\<close>

lemma probe_select: "attempted_step 10 probe_state = (1, False)"
  by (simp add: attempted_step_def probe_state_def select_step_def hmin_at_def)

lemma probe_attempt:
  "rk_attempt one_group (st_t probe_state) (st_x probe_state) (st_s1 probe_state) 1
     = Inr ([56 / 3, 0, 0], [56 / 3, 0, 0], 1 / 64 + float_tiny)"
  by (simp add: probe_state_def rk_attempt_def vadd_def smul_def scaled_norm_def norm_inf_def
      threshold_def atol_def rtol_def one_group_def ode_eval)

lemma probe_rejected: "rtol < 1 / 64 + float_tiny"
  by (simp add: rtol_def float_tiny_def)

lemma rtol_cuberoot_ge: "rtol \<le> rtol powr (1 / 3)"
proof -
  have "rtol powr 1 \<le> rtol powr (1 / 3)"
    by (rule powr_mono') (simp_all add: rtol_def)
  then show ?thesis by (simp add: rtol_def)
qed

lemma h_flat_ge: "1 \<le> h_flat"
proof -
  have "8 / 10 * rtol / float_tiny \<le> h_flat"
    unfolding h_flat_def using rtol_cuberoot_ge
    by (intro divide_right_mono mult_left_mono) (simp_all add: float_tiny_def)
  moreover have "1 \<le> 8 / 10 * rtol / float_tiny"
    by (simp add: rtol_def float_tiny_def)
  ultimately show ?thesis by linarith
qed

lemma late_grid:
  "T_grid late_group = [100000000000000000000, 100000000000000032768, 100000000000000065536]"
  by (simp add: late_group_def)

lemma late_init: "ode_init late_group (T_grid late_group) [0, 0, 0] = Inr late0"
  by (simp add: ode_init_def h_flat_def scaled_norm_def norm_inf_def late0_def
      late_group_def ode_eval)

lemma late_hmin: "hmin_at 100000000000000000000 = 100000000000000000000 / 281474976710656"
  by (simp add: hmin_at_def float_eps_def)

lemma late_select: "attempted_step (32768 / 5) late0 = (32768, True)"
  by (simp add: attempted_step_def late0_def select_step_def late_hmin)

lemma late_attempt:
  "rk_attempt late_group (st_t late0) (st_x late0) (st_s1 late0) 32768
     = Inr ([0, 0, 0], [0, 0, 0], float_tiny)"
  by (simp add: late0_def rk_attempt_def vadd_def smul_def scaled_norm_def norm_inf_def
      threshold_def atol_def rtol_def late_group_def ode_eval)

lemma late_accepted: "float_tiny \<le> rtol"
  by (simp add: float_tiny_def rtol_def)

lemma late_too_small: "32768 * step_factor float_tiny \<le> hmin_at (st_t late0)"
proof -
  have "32768 * step_factor float_tiny \<le> 32768 * 5"
    using step_factor_le [of float_tiny] by simp
  also have "\<dots> \<le> hmin_at 100000000000000000000"
    by (simp add: late_hmin)
  finally show ?thesis by (simp add: late0_def)
qed

lemma late_body: "ode_body late_group (T_grid late_group) (32768 / 5) late0 = Inr (late1, True)"
  using late_too_small late_accepted
  by (simp add: ode_body_def late_select late_attempt Let_def accept_step_def late_grid late1_def)
     (simp add: late0_def)

lemma late_loop: "ode_loop late_group (T_grid late_group) (32768 / 5) late0 = Some (Inr late1)"
  by (subst ode_loop.simps) (simp add: late_body, simp add: late0_def late_group_def)

lemma late_run:
  "ode23simple late_group (T_grid late_group) [0, 0, 0] =
     Some (Inr ([100000000000000000000, 100000000000000032768, 100000000000000065536],
                [[0, 0, 0], [0, 0, 0], [0, 0, 0]],
                \<lparr>err = 1, hmax_used = max h_flat 32768, hmin_used = min h_flat 32768,
                  nsteps = 1, nfailed = 0\<rparr>))"
proof -
  have hm: "1 / 10 * (last (T_grid late_group) - T_grid late_group ! 0) = 32768 / 5"
    by (simp add: late_grid)
  show ?thesis
    unfolding ode23simple_def hm
    by (simp add: late_init late_loop) (simp add: late1_def late0_def)
qed


text \<open>
  C7. The claim: every attempted step satisfies \<open>hmin \<le> h \<le> hmax\<close> with
  \<open>hmin = 16*eps*|t|\<close> and \<open>hmax = 0.1*(tEnd - t0)\<close>, and close to the next
  output time the step is \<open>tnext - t\<close>. The step set to \<open>tnext - t\<close> is not
  clamped again. For the output times \<open>[0, 1.05, 10]\<close> and a train at rest,
  \<open>hmax = 1\<close> and the first attempted step is \<open>1.05\<close>: the comment of line 75
  says the step is stretched when \<open>t\<close> is close to \<open>tnext\<close>.
\<close>

lemma ten_init:
  "ode_init ten_group [0, 21 / 20, 10] [0, 0, 0] =
     Inr \<lparr>st_t = 0, st_x = [0, 0, 0], st_h = h_flat, st_s1 = [0, 0, 0],
          st_tout = [0, 21 / 20, 10],
          st_xout = [[0, 0, 0], [0, 0, 0], [0, 0, 0]],
          st_knext = 1, st_tnext = 21 / 20,
          st_stats = \<lparr>err = 0, hmax_used = h_flat, hmin_used = h_flat,
                       nsteps = 0, nfailed = 0\<rparr>\<rparr>"
  by (simp add: ode_init_def h_flat_def scaled_norm_def norm_inf_def ten_group_def ode_eval)

theorem C7_landing_step_exceeds_hmax:
  "map_sum id (attempted_step (1 / 10 * (10 - 0)))
       (ode_init ten_group [0, 21 / 20, 10] [0, 0, 0]) = Inr (21 / 20, True)
   \<and> \<not> (21 / 20 \<le> 1 / 10 * (10 - 0 :: real))"
  using h_flat_ge
  by (simp add: ten_init attempted_step_def select_step_def hmin_at_def)

text \<open>
  C7, as the code has it. Let \<open>c\<close> be the step clamped first to \<open>hmax\<close> from
  above and then to \<open>hmin = 16*eps*|t|\<close> from below, so that
  \<open>hmin \<le> c \<le> max hmin hmax\<close>. When \<open>tnext - t \<le> 1.1*c\<close> the attempted step
  is \<open>tnext - t\<close> exactly and lands on the output time; otherwise it is \<open>c\<close>. In
  both cases it is at most \<open>1.1 * max hmin hmax\<close>.
\<close>

theorem C7_attempted_step:
  assumes "attempted_step hmax s = (h, attout)"
  shows "hmin_at (st_t s) = 16 * float_eps * \<bar>st_t s\<bar>
       \<and> attout = (st_tnext s - st_t s \<le> 11 / 10 * max (hmin_at (st_t s)) (min (st_h s) hmax))
       \<and> h = (if attout then st_tnext s - st_t s
               else max (hmin_at (st_t s)) (min (st_h s) hmax))
       \<and> hmin_at (st_t s) \<le> max (hmin_at (st_t s)) (min (st_h s) hmax)
       \<and> max (hmin_at (st_t s)) (min (st_h s) hmax) \<le> max (hmin_at (st_t s)) hmax
       \<and> h \<le> 11 / 10 * max (hmin_at (st_t s)) hmax"
proof -
  have pos: "0 \<le> hmin_at (st_t s)"
    by (simp add: hmin_at_def float_eps_def)
  have "hmin_at (st_t s) = 16 * float_eps * \<bar>st_t s\<bar>"
    by (simp add: hmin_at_def)
  moreover have "attout = (st_tnext s - st_t s \<le> 11 / 10 * max (hmin_at (st_t s)) (min (st_h s) hmax))
       \<and> h = (if attout then st_tnext s - st_t s
               else max (hmin_at (st_t s)) (min (st_h s) hmax))
       \<and> hmin_at (st_t s) \<le> max (hmin_at (st_t s)) (min (st_h s) hmax)
       \<and> max (hmin_at (st_t s)) (min (st_h s) hmax) \<le> max (hmin_at (st_t s)) hmax
       \<and> h \<le> 11 / 10 * max (hmin_at (st_t s)) hmax"
    using assms pos
    by (auto simp add: attempted_step_def select_step_def Let_def max_def min_def
        split: if_splits)
  ultimately show ?thesis by blast
qed

theorem C7_attempted_step_witness:
  "attempted_step 10 probe_state = (1, False)
   \<and> (1 :: real) = max (hmin_at (st_t probe_state)) (min (st_h probe_state) 10)
   \<and> attempted_step (32768 / 5) late0 = (32768, True)
   \<and> (32768 :: real) = st_tnext late0 - st_t late0
   \<and> (32768 :: real) \<le> 11 / 10 * max (hmin_at (st_t late0)) (32768 / 5)"
proof -
  have a: "(1 :: real) = max (hmin_at (st_t probe_state)) (min (st_h probe_state) 10)"
    using conjunct2 [OF C7_attempted_step [OF probe_select]] by simp
  have b: "(32768 :: real) = st_tnext late0 - st_t late0
      \<and> (32768 :: real) \<le> 11 / 10 * max (hmin_at (st_t late0)) (32768 / 5)"
    using conjunct2 [OF C7_attempted_step [OF late_select]] by simp
  from a b probe_select late_select show ?thesis by blast
qed

subsection \<open>The output arrays keep their length\<close>

lemma ode_body_lengths:
  assumes "ode_body p TOUT hmax s = Inr (s', brk)"
  shows "length (st_tout s') = length (st_tout s) \<and> length (st_xout s') = length (st_xout s)"
  using assms
  by (auto simp add: ode_body_def Let_def accept_step_def reject_step_def
      split: prod.splits sum.splits if_splits)

lemma ode_loop_lengths_aux:
  assumes "ode_loop p TOUT hmax s = Some r"
  shows "\<forall>s'. r = Inr s' \<longrightarrow>
          length (st_tout s') = length (st_tout s) \<and> length (st_xout s') = length (st_xout s)"
proof (rule ode_loop.raw_induct[where P = "\<lambda>p TOUT hmax s r. \<forall>s'. r = Inr s' \<longrightarrow>
          length (st_tout s') = length (st_tout s) \<and> length (st_xout s') = length (st_xout s)",
          OF _ assms])
  fix loop :: "sim_params \<Rightarrow> vec \<Rightarrow> real \<Rightarrow> ode_state \<Rightarrow> (error + ode_state) option"
  fix p TOUT hmax s r
  assume IH: "\<And>p TOUT hmax s r. loop p TOUT hmax s = Some r \<Longrightarrow> \<forall>s'. r = Inr s' \<longrightarrow>
          length (st_tout s') = length (st_tout s) \<and> length (st_xout s') = length (st_xout s)"
  assume eq: "(if st_t s < last TOUT
      then case ode_body p TOUT hmax s of Inl e \<Rightarrow> Some (Inl e)
           | Inr (s', brk) \<Rightarrow> if brk then Some (Inr s') else loop p TOUT hmax s'
      else Some (Inr s)) = Some r"
  show "\<forall>s'. r = Inr s' \<longrightarrow>
          length (st_tout s') = length (st_tout s) \<and> length (st_xout s') = length (st_xout s)"
  proof (cases "st_t s < last TOUT")
    case False
    with eq show ?thesis by auto
  next
    case True
    show ?thesis
    proof (cases "ode_body p TOUT hmax s")
      case (Inl e)
      with True eq show ?thesis by auto
    next
      case (Inr sb)
      obtain s1 brk where sb: "sb = (s1, brk)" by (cases sb)
      note len = ode_body_lengths[OF Inr[unfolded sb]]
      show ?thesis
      proof (cases brk)
        case True
        with \<open>st_t s < last TOUT\<close> eq Inr sb len show ?thesis by auto
      next
        case False
        with \<open>st_t s < last TOUT\<close> eq Inr sb have "loop p TOUT hmax s1 = Some r" by simp
        from IH[OF this] len show ?thesis by simp
      qed
    qed
  qed
qed

lemma ode_loop_lengths:
  assumes "ode_loop p TOUT hmax s = Some (Inr s')"
  shows "length (st_tout s') = length (st_tout s) \<and> length (st_xout s') = length (st_xout s)"
  using ode_loop_lengths_aux[OF assms] by blast

lemma ode_init_lengths:
  assumes "ode_init p TOUT x0 = Inr s0"
  shows "length (st_tout s0) = length TOUT \<and> length (st_xout s0) = length TOUT"
  using assms
  by (auto simp add: ode_init_def Let_def split: if_splits sum.splits prod.splits)

lemma ode23simple_lengths:
  assumes "ode23simple p TOUT x0 = Some (Inr (tout, xout, st))"
  shows "length tout = length TOUT \<and> length xout = length TOUT"
  using assms ode_init_lengths ode_loop_lengths
  by (fastforce simp add: ode23simple_def split: sum.splits option.splits)





section \<open>Properties of the configuration checks\<close>

lemma make_spec_error:
  "make_spec pl st = Inl e \<Longrightarrow> e = AssertionError ''stroke is too small''"
  by (auto simp add: make_spec_def Let_def split: if_splits)

lemma make_spec_fails_iff:
  "isl (make_spec pl st) \<longleftrightarrow> pl \<noteq> 0 \<and> \<not> st + eocc_dx1 st > eocc_x1 pl"
  by (auto simp add: make_spec_def Let_def split: if_splits)

lemma make_specs_fails:
  assumes "(pl, st) \<in> set ps" and "pl \<noteq> 0" and "\<not> st + eocc_dx1 st > eocc_x1 pl"
  shows "make_specs ps = Inl (AssertionError ''stroke is too small'')"
  using assms
proof (induction ps)
  case Nil
  then show ?case by simp
next
  case (Cons a ps)
  obtain pl' st' where a: "a = (pl', st')" by (cases a)
  show ?case
  proof (cases "make_spec pl' st'")
    case (Inl e)
    with make_spec_error [OF Inl] a show ?thesis by simp
  next
    case (Inr sp)
    with Cons.prems a make_spec_fails_iff [of pl st] have "(pl, st) \<in> set ps"
      by auto
    from Cons.IH [OF this Cons.prems(2,3)] Inr a show ?thesis by simp
  qed
qed

lemma default_fields_ok: "fields_ok [(''norm'', 15), (''eocc'', 5)]"
  by (simp add: fields_ok_def has_key_def)

text \<open>
  C9. The claim: \<open>defineCouplers\<close> raises on inconsistent units and on a
  stroke too small for its preload, and \<open>defineCarGroups\<close> raises when the
  grouping limit is neither a number nor a dict with a recognised field
  set. \<open>None\<close> is neither, and it does not raise: line 41 replaces it by the
  default limits \<open>{norm: 15, eocc: 5}\<close>, and two standard cars form one group.
\<close>

theorem C9_none_selects_the_default:
  "defineCarGroups DNone [1, 1] False = Inr [2]"
  by (simp add: defineCarGroups_def dcar_check_def fields_ok_def has_key_def dcar_vec_def
      get_key_def map_types_def scan_step_def group_size_limit_def type_limit_def py_index_def)

text \<open>
  C9, as the code has it. The unit checks return a ValueError when the
  force units, or else the displacement units, of the coupler types differ.
  \<open>defineCouplers\<close> returns the AssertionError \<open>stroke is too small\<close> when any
  type with a nonzero preload has \<open>stroke + dx1 \<le> x1\<close>. \<open>defineCarGroups\<close>
  returns a ValueError for a limit that is not \<open>None\<close>, not a number and not
  a dict, and for a dict without a recognised field set; \<open>None\<close>, a number
  and a dict with a recognised field set pass the check. The errors are the
  results of the configuration functions themselves, which run no
  integration.
\<close>

theorem C9_configuration_errors:
  "(1 < card (set (map Funits specs))
      \<longrightarrow> check_units specs = Inl (ValueError ''Force units not common''))
   \<and> (card (set (map Funits specs)) \<le> 1 \<and> 1 < card (set (map Xunits specs))
      \<longrightarrow> check_units specs = Inl (ValueError ''Displacment units not common''))
   \<and> (couplers_args nt pre str = Inr ps \<and> (pl, st) \<in> set ps \<and> pl \<noteq> 0
        \<and> st + eocc_dx1 st \<le> eocc_x1 pl
      \<longrightarrow> defineCouplers nt pre str = Inl (AssertionError ''stroke is too small''))
   \<and> defineCarGroups DOther cti eq = Inl (ValueError ''dcar: unknown type'')
   \<and> (\<not> fields_ok kv
      \<longrightarrow> defineCarGroups (DDict kv) cti eq
            = Inl (ValueError (''dcar: unexpected fields '' @ join_comma (map fst kv))))
   \<and> dcar_check DNone = Inr (DDict [(''norm'', 15), (''eocc'', 5)])
   \<and> dcar_check (DNum v) = Inr (DNum v)
   \<and> (fields_ok kv' \<longrightarrow> dcar_check (DDict kv') = Inr (DDict kv'))"
proof (intro conjI impI)
  assume "couplers_args nt pre str = Inr ps \<and> (pl, st) \<in> set ps \<and> pl \<noteq> 0
        \<and> st + eocc_dx1 st \<le> eocc_x1 pl"
  then have "couplers_args nt pre str = Inr ps"
    and "make_specs ps = Inl (AssertionError ''stroke is too small'')"
    using make_specs_fails [of pl st ps] by auto
  then show "defineCouplers nt pre str = Inl (AssertionError ''stroke is too small'')"
    by (simp add: defineCouplers_def)
qed (simp_all add: check_units_def defineCarGroups_def dcar_check_def default_fields_ok)

theorem C9_configuration_errors_witness:
  "check_units [standard_spec, standard_spec\<lparr>Funits := ''kN''\<rparr>]
     = Inl (ValueError ''Force units not common'')
   \<and> check_units [standard_spec, standard_spec\<lparr>Xunits := ''mm''\<rparr>]
     = Inl (ValueError ''Displacment units not common'')
   \<and> defineCouplers [[1]] (Some [[100]]) (Some [[1 / 2]])
     = Inl (AssertionError ''stroke is too small'')
   \<and> defineCarGroups (DDict [(''norm'', 3), (''foo'', 2)]) [1, 1] False
     = Inl (ValueError ''dcar: unexpected fields norm,foo'')
   \<and> dcar_check (DDict [(''norm'', 3), (''eocc'', 2)]) = Inr (DDict [(''norm'', 3), (''eocc'', 2)])"
proof -
  note inst1 = C9_configuration_errors
    [of "[standard_spec, standard_spec\<lparr>Funits := ''kN''\<rparr>]" "[[1]]" "Some [[100]]"
      "Some [[1 / 2]]" "[(100, 1 / 2)]" 100 "1 / 2" "[1, 1]" False
      "[(''norm'', 3), (''foo'', 2)]" 0 "[(''norm'', 3), (''eocc'', 2)]"]
  note inst2 = C9_configuration_errors
    [where specs = "[standard_spec, standard_spec\<lparr>Xunits := ''mm''\<rparr>]"]
  have u1: "1 < card (set (map Funits [standard_spec, standard_spec\<lparr>Funits := ''kN''\<rparr>]))"
    by (simp add: standard_spec_def)
  have u2: "card (set (map Funits [standard_spec, standard_spec\<lparr>Xunits := ''mm''\<rparr>])) \<le> 1
      \<and> 1 < card (set (map Xunits [standard_spec, standard_spec\<lparr>Xunits := ''mm''\<rparr>]))"
    by (simp add: standard_spec_def)
  have a: "couplers_args [[1]] (Some [[100]]) (Some [[1 / 2]]) = Inr [(100, 1 / 2)]
      \<and> (100, 1 / 2) \<in> set [(100 :: real, 1 / 2 :: real)] \<and> (100 :: real) \<noteq> 0
      \<and> 1 / 2 + eocc_dx1 (1 / 2) \<le> eocc_x1 100"
    by (simp add: couplers_args_def given_def eocc_dx1_def eocc_x1_def)
  have f: "\<not> fields_ok [(''norm'', 3), (''foo'', 2)]"
    by (simp add: fields_ok_def has_key_def)
  have g: "fields_ok [(''norm'', 3), (''eocc'', 2)]"
    by (simp add: fields_ok_def has_key_def)
  from inst1 u1 a f g inst2 u2 show ?thesis
    by simp
qed

section \<open>Properties of the steady-state initial state\<close>

lemma collect_Inr:
  "collect f js = Inr vs \<Longrightarrow> length vs = length js \<and> (\<forall>k < length js. f (js ! k) = Inr (vs ! k))"
proof (induction js arbitrary: vs)
  case Nil
  then show ?case by simp
next
  case (Cons j js)
  then obtain v vs' where v: "f j = Inr v" and vs': "collect f js = Inr vs'" and eq: "vs = v # vs'"
    by (auto split: sum.splits)
  from Cons.IH[OF vs'] v eq show ?case
    by (auto simp add: nth_Cons split: nat.splits)
qed

lemma collect_total:
  "(\<And>j. j \<in> set js \<Longrightarrow> \<exists>v. f j = Inr v) \<Longrightarrow> \<exists>vs. collect f js = Inr vs"
proof (induction js)
  case Nil
  then show ?case by simp
next
  case (Cons j js)
  then obtain v where "f j = Inr v" by auto
  moreover from Cons obtain vs where "collect f js = Inr vs" by auto
  ultimately show ?case by simp
qed

lemma np_interp_total:
  "xp \<noteq> [] \<Longrightarrow> length fp = length xp \<Longrightarrow> \<exists>v. np_interp x xp fp = Inr v"
  by (simp add: np_interp_def Let_def)

lemma length_ramp: "length (ramp N e) = N"
  by (simp add: ramp_def)

lemma length_perturbed: "length (perturbed col e) = length col"
  by (simp add: perturbed_def length_ramp)

lemma length_column: "length (column m i) = length m"
  by (simp add: column_def)

lemma slope_eps_total: "col \<noteq> [] \<Longrightarrow> \<exists>e. slope_eps col = Inr e"
  by (cases col) (simp_all add: slope_eps_def)

lemma sign_diff_neg: "flt (fsign (fsub (Fin b) (Fin a))) (Fin 0) \<longleftrightarrow> b - a < 0"
  by (simp add: fsub_def sgn_if)

lemma ss_column_finite:
  assumes "2 \<le> length Frope" and "i < length (hd Frope)"
    and "Fmin2 \<noteq> [] \<longrightarrow> i < length (hd Fmin2)"
    and "slope_eps (column Fmax2 i) = Inr e"
    and "Frope ! 0 ! i = Fin a" and "Frope ! 1 ! i = Fin b"
  shows "ss_column x2 Fmin2 Fmax2 Frope i =
     np_interp (Fin a) (perturbed (column (if b - a < 0 then Fmin2 else Fmax2) i) e) x2"
  using assms by (auto simp add: ss_column_def Let_def sign_diff_neg)

lemma ss_column_total:
  assumes "2 \<le> length Frope" and "i < length (hd Frope)"
    and "i < length (hd Fmin2)"
    and "x2 \<noteq> []" and "length Fmax2 = length x2" and "length Fmin2 = length x2"
  shows "\<exists>v. ss_column x2 Fmin2 Fmax2 Frope i = Inr v"
proof -
  from assms have "column Fmax2 i \<noteq> []" by (auto simp add: column_def)
  from slope_eps_total[OF this] obtain e where e: "slope_eps (column Fmax2 i) = Inr e" by blast
  have a: "\<exists>v. np_interp x (perturbed (column Fmin2 i) e) x2 = Inr v" for x
    using assms length_perturbed [of "column Fmin2 i" e] length_perturbed [of "column Fmax2 i" e]
    by (intro np_interp_total) (auto simp add: length_column)
  have b: "\<exists>v. np_interp x (perturbed (column Fmax2 i) e) x2 = Inr v" for x
    using assms length_perturbed [of "column Fmin2 i" e] length_perturbed [of "column Fmax2 i" e]
    by (intro np_interp_total) (auto simp add: length_column)
  show ?thesis
    using assms e a b by (auto simp add: ss_column_def Let_def)
qed

lemma velocity_zero: "nan_to_zero (fmul v (Fin 0)) = Fin 0"
  by (cases v) (simp_all add: nan_to_zero_def is_nan_def)

lemma nan_to_zero_not_nan: "\<not> is_nan (nan_to_zero v)"
  by (simp add: nan_to_zero_def is_nan_def)


lemma fmax2_Fin: "fmax2 (Fin m) (Fin a) = Fin (max m a)"
  by (simp add: fmax2_def is_nan_def max_def)

lemma fold_fmax2_Fin:
  "fold (\<lambda>a m. fmax2 m a) (map Fin rs) (Fin m) = Fin (Max (insert m (set rs)))"
proof (induction rs arbitrary: m)
  case Nil
  then show ?case by simp
next
  case (Cons r rs)
  have "Max (insert (max m r) (set rs)) = Max (insert m (insert r (set rs)))"
    by (cases "set rs = {}") (simp_all add: max.assoc)
  with Cons show ?case by (simp add: fmax2_Fin)
qed

lemma np_max_Fin: "rs \<noteq> [] \<Longrightarrow> np_max (map Fin rs) = Inr (Fin (Max (set rs)))"
  by (cases rs) (simp_all add: fold_fmax2_Fin)

lemma slope_eps_Fin:
  assumes "cs \<noteq> []"
  shows "slope_eps (map Fin cs) = Inr (Fin (2 * float_eps * Max (abs ` set cs)))"
proof -
  have h: "map fabs (map Fin cs) = map Fin (map abs cs)" by simp
  have m: "np_max (map fabs (map Fin cs)) = Inr (Fin (Max (abs ` set cs)))"
    unfolding h using assms np_max_Fin [of "map abs cs"] by simp
  show ?thesis
    unfolding slope_eps_def m by (simp add: mult_ac)
qed

lemma ramp_nth: "k < N \<Longrightarrow> ramp N (Fin e) ! k = Fin (real (k + 1) * e)"
  by (simp add: ramp_def add.commute del: upt_Suc)

lemma perturbed_nth:
  "k < length col \<Longrightarrow> perturbed col (Fin e) ! k = fadd (col ! k) (Fin (real (k + 1) * e))"
  by (simp add: perturbed_def length_ramp ramp_nth)

lemma max_abs_pos:
  fixes cs :: "real list"
  assumes "c \<in> set cs" and "c \<noteq> 0"
  shows "0 < Max (abs ` set cs)"
proof -
  have "\<bar>c\<bar> \<le> Max (abs ` set cs)" using assms by (intro Max_ge) auto
  moreover have "0 < \<bar>c\<bar>" using assms by simp
  ultimately show ?thesis by linarith
qed

lemma ramp_increasing:
  assumes "0 < e" and "j < k" and "k < N"
  shows "flt (ramp N (Fin e) ! j) (ramp N (Fin e) ! k)"
  using assms by (simp add: ramp_nth)









end
